theory Spec2Isabelle
  imports Main "HOL-Library.Sublist"
begin

section \<open>Event taxonomy\<close>

text \<open>The event type constants of package \<open>webhooks\<close> and the list \<open>AllEvents\<close>.\<close>

definition EventSubscriberCreated :: string where
  "EventSubscriberCreated = ''subscriber.created''"

definition EventSubscriberUpdated :: string where
  "EventSubscriberUpdated = ''subscriber.updated''"

definition EventSubscriberUnsubscribed :: string where
  "EventSubscriberUnsubscribed = ''subscriber.unsubscribed''"

definition EventSubscriberConfirmed :: string where
  "EventSubscriberConfirmed = ''subscriber.confirmed''"

definition EventSubscriberBlocklisted :: string where
  "EventSubscriberBlocklisted = ''subscriber.blocklisted''"

definition EventSubscriberDeleted :: string where
  "EventSubscriberDeleted = ''subscriber.deleted''"

definition EventCampaignStarted :: string where
  "EventCampaignStarted = ''campaign.started''"

definition EventCampaignFinished :: string where
  "EventCampaignFinished = ''campaign.finished''"

definition EventLinkClick :: string where
  "EventLinkClick = ''tracking.link_click''"

definition EventEmailOpen :: string where
  "EventEmailOpen = ''tracking.email_open''"

definition EventBounce :: string where
  "EventBounce = ''tracking.bounce''"

definition AllEvents :: "string list" where
  "AllEvents =
    [EventSubscriberCreated, EventSubscriberUpdated, EventSubscriberUnsubscribed,
     EventSubscriberConfirmed, EventSubscriberBlocklisted, EventSubscriberDeleted,
     EventCampaignStarted, EventCampaignFinished,
     EventLinkClick, EventEmailOpen, EventBounce]"

section \<open>Data model\<close>

text \<open>
  A Go \<open>[]byte\<close> and a Go \<open>string\<close> are both byte sequences; a \<^typ>\<open>char\<close> is one byte,
  so the conversion \<open>[]byte(secret)\<close> is the identity. A \<open>time.Duration\<close> counts
  nanoseconds; \<open>MaxConns\<close> is a Go \<open>int\<close>. No arithmetic is done on either besides the
  comparison with zero, so both are integers here. A \<open>time.Time\<close> is the instant in
  nanoseconds.
\<close>

type_synonym bytes = string
type_synonym Duration = int

definition Second :: Duration where
  "Second = 1000000000"

record 'd Payload =
  Event :: string
  Timestamp :: int
  Data :: 'd

record Opt =
  UUID :: string
  Name :: string
  URL :: string
  Secret :: string
  Events :: "string list"
  MaxConns :: int
  Timeout :: Duration

text \<open>The fields of \<open>http.Transport\<close> and \<open>http.Client\<close> that \<open>New\<close> sets.\<close>

record http_Transport =
  MaxIdleConnsPerHost :: int
  MaxConnsPerHost :: int
  ResponseHeaderTimeout :: Duration
  IdleConnTimeout :: Duration

record http_Client =
  Client_Timeout :: Duration
  Client_Transport :: http_Transport

text \<open>
  \<open>events\<close> is a Go \<open>map[string]bool\<close>. The endpoint is immutable once built, so the
  pointer \<open>*endpoint\<close> held by a job is modelled by the endpoint's value.
\<close>

record endpoint =
  uuid :: string
  name :: string
  url :: string
  secret :: string
  events :: "string \<rightharpoonup> bool"
  client :: http_Client

record dispatchJob =
  ep :: endpoint
  payload :: bytes

text \<open>
  An \<open>http.Header\<close> maps a canonical key to its values; \<open>Header.Set\<close> replaces the values of
  the key by the single given one. The three keys the program sets are already in
  canonical form.
\<close>

type_synonym Header = "string \<rightharpoonup> string list"

record Request =
  Method :: string
  ReqURL :: string
  Hdr :: Header
  Body :: bytes

definition Header_Set :: "Request \<Rightarrow> string \<Rightarrow> string \<Rightarrow> Request" where
  "Header_Set req k v = req\<lparr>Hdr := (Hdr req)(k \<mapsto> [v])\<rparr>"

text \<open>
  The first four fields are those of the Go struct: \<open>log\<close> holds the lines printed through
  the logger, \<open>ch\<close> the content of the buffered channel (oldest job first) and \<open>closeCh\<close>
  tells whether the stop channel has been closed. The other three record what the
  manager does to the world: \<open>wire\<close> the requests handed to \<open>ep.client.Do\<close> in order,
  \<open>marshalled\<close> the number of calls of \<open>json.Marshal\<close>, and \<open>running\<close> whether the goroutine
  started by \<open>New\<close> is still running.
\<close>

record Manager =
  endpoints :: "endpoint list"
  log :: "string list"
  ch :: "dispatchJob list"
  closeCh :: bool
  wire :: "Request list"
  marshalled :: nat
  running :: bool

text \<open>
  The library calls whose results the program does not determine. An error is the
  left summand and carries the text of \<open>err.Error()\<close>.
  \<^item> \<open>json_Marshal\<close>: \<open>json.Marshal\<close> on the payload envelope;
  \<^item> \<open>hmac_sha256 key msg\<close>: the digest \<open>mac.Sum(nil)\<close> of \<open>hmac.New(sha256.New, key)\<close>
    after \<open>mac.Write(msg)\<close>;
  \<^item> \<open>url_error\<close>: the error of \<open>http.NewRequest\<close> for a URL that does not parse;
  \<^item> \<open>client_Do n c req\<close>: the outcome of \<open>c.Do(req)\<close> as the \<open>n\<close>-th call on the network,
  a transport error or the status code of the response.
\<close>

record 'd env =
  json_Marshal :: "'d Payload \<Rightarrow> string + bytes"
  hmac_sha256 :: "bytes \<Rightarrow> bytes \<Rightarrow> bytes"
  url_error :: "string \<Rightarrow> string option"
  client_Do :: "nat \<Rightarrow> http_Client \<Rightarrow> Request \<Rightarrow> string + int"

section \<open>Library functions with a fixed meaning\<close>

text \<open>Indexing a \<open>map[string]bool\<close>: a missing key yields the zero value \<open>false\<close>.\<close>

definition map_index :: "(string \<rightharpoonup> bool) \<Rightarrow> string \<Rightarrow> bool" where
  "map_index m k = (case m k of None \<Rightarrow> False | Some b \<Rightarrow> b)"

text \<open>\<open>hex.EncodeToString\<close>: two digits of the lowercase table per byte, high nibble first.\<close>

definition hextable :: string where
  "hextable = ''0123456789abcdef''"

definition EncodeToString :: "bytes \<Rightarrow> string" where
  "EncodeToString src =
     concat (map (\<lambda>v. [hextable ! (of_char v div 16), hextable ! (of_char v mod 16)]) src)"

text \<open>The verb \<open>%d\<close> of \<open>Printf\<close> on an integer.\<close>

fun decimal :: "nat \<Rightarrow> string" where
  "decimal n =
     (if n < 10 then [''0123456789'' ! n]
      else decimal (n div 10) @ [''0123456789'' ! (n mod 10)])"

definition fmt_d :: "int \<Rightarrow> string" where
  "fmt_d i = (if i < 0 then ''-'' @ decimal (nat (- i)) else decimal (nat i))"

text \<open>\<open>http.NewRequest\<close>: a request with the given method, URL and body and no header yet.\<close>

definition http_NewRequest :: "'d env \<Rightarrow> string \<Rightarrow> string \<Rightarrow> bytes \<Rightarrow> string + Request" where
  "http_NewRequest env method u body =
     (case url_error env u of
        Some err \<Rightarrow> Inl err
      | None \<Rightarrow> Inr \<lparr>Method = method, ReqURL = u, Hdr = Map.empty, Body = body\<rparr>)"

section \<open>Construction\<close>

text \<open>The inner loop of \<open>New\<close>: \<open>events[e] = true\<close> for every entry of the event list.\<close>

fun New_events :: "(string \<rightharpoonup> bool) \<Rightarrow> string list \<Rightarrow> (string \<rightharpoonup> bool)" where
  "New_events evs [] = evs"
| "New_events evs (e # es) = New_events (evs(e \<mapsto> True)) es"

text \<open>The body of the outer loop of \<open>New\<close>: the endpoint built from one record.\<close>

definition New_endpoint :: "Opt \<Rightarrow> endpoint" where
  "New_endpoint opt =
     (let evs = New_events Map.empty (Events opt);
          timeout = (if Timeout opt = 0 then 5 * Second else Timeout opt);
          maxConns = (if MaxConns opt = 0 then 5 else MaxConns opt)
      in \<lparr>uuid = UUID opt, name = Name opt, url = URL opt, secret = Secret opt,
          events = evs,
          client = \<lparr>Client_Timeout = timeout,
                    Client_Transport =
                      \<lparr>MaxIdleConnsPerHost = maxConns, MaxConnsPerHost = maxConns,
                       ResponseHeaderTimeout = timeout, IdleConnTimeout = timeout\<rparr>\<rparr>\<rparr>)"

fun New_loop :: "Manager \<Rightarrow> Opt list \<Rightarrow> Manager" where
  "New_loop m [] = m"
| "New_loop m (opt # opts) =
     New_loop (m\<lparr>endpoints := endpoints m @ [New_endpoint opt]\<rparr>) opts"

text \<open>
  \<open>New\<close> takes the records and the logger (here: what the logger has printed so far, and
  the effects recorded so far). Its error result is always \<open>nil\<close> and is left out. The
  channel is made with capacity 1000 and is empty; the worker is started.
\<close>

definition chan_cap :: nat where
  "chan_cap = 1000"

definition New :: "Opt list \<Rightarrow> string list \<Rightarrow> Manager" where
  "New opts lo =
     (let m = \<lparr>endpoints = [], log = lo, ch = [], closeCh = False,
               wire = [], marshalled = 0, running = False\<rparr>;
          m = New_loop m opts
      in m\<lparr>running := True\<rparr>)"

definition HasEndpoints :: "Manager \<Rightarrow> bool" where
  "HasEndpoints m = (length (endpoints m) > 0)"

text \<open>\<open>Close\<close> closes the stop channel; closing a closed channel panics.\<close>

definition Close :: "Manager \<Rightarrow> string + Manager" where
  "Close m =
     (if closeCh m then Inl ''panic: close of closed channel''
      else Inr (m\<lparr>closeCh := True\<rparr>))"

section \<open>Delivery\<close>

definition computeHMAC :: "'d env \<Rightarrow> bytes \<Rightarrow> string \<Rightarrow> string" where
  "computeHMAC env pl sec = EncodeToString (hmac_sha256 env sec pl)"

definition send :: "'d env \<Rightarrow> Manager \<Rightarrow> endpoint \<Rightarrow> bytes \<Rightarrow> Manager" where
  "send env m e pl =
     (case http_NewRequest env ''POST'' (url e) pl of
        Inl err \<Rightarrow>
          m\<lparr>log := log m @ [''webhook: error creating request for '' @ name e @ '': '' @ err]\<rparr>
      | Inr req0 \<Rightarrow>
          (let req1 = Header_Set req0 ''Content-Type'' ''application/json'';
               req2 = Header_Set req1 ''User-Agent'' ''listmonk'';
               req = (if secret e \<noteq> ''''
                      then Header_Set req2 ''X-Webhook-Signature''
                             (''sha256='' @ computeHMAC env pl (secret e))
                      else req2);
               m1 = m\<lparr>wire := wire m @ [req]\<rparr>
           in case client_Do env (length (wire m)) (client e) req of
                Inl err \<Rightarrow>
                  m1\<lparr>log := log m1 @ [''webhook: error sending to '' @ name e @ '': '' @ err]\<rparr>
              | Inr status \<Rightarrow>
                  if status \<ge> 400
                  then m1\<lparr>log := log m1 @
                         [''webhook: non-OK response from '' @ name e @ '': '' @ fmt_d status]\<rparr>
                  else m1))"

section \<open>Dispatch\<close>

text \<open>
  One pass of the loop over the endpoints: the subscription test and the \<open>select\<close> with
  a \<open>default\<close> branch. A send on a buffered channel is ready exactly when the buffer
  is not full.
\<close>

definition Dispatch_iter :: "string \<Rightarrow> bytes \<Rightarrow> endpoint \<Rightarrow> Manager \<Rightarrow> Manager" where
  "Dispatch_iter event b e m =
     (if map_index (events e) event
      then (if length (ch m) < chan_cap
            then m\<lparr>ch := ch m @ [\<lparr>ep = e, payload = b\<rparr>]\<rparr>
            else m\<lparr>log := log m @
                   [''webhook: dispatch queue full, dropping event '' @ event @ '' for '' @ name e]\<rparr>)
      else m)"

fun Dispatch_loop :: "string \<Rightarrow> bytes \<Rightarrow> endpoint list \<Rightarrow> Manager \<Rightarrow> Manager" where
  "Dispatch_loop event b [] m = m"
| "Dispatch_loop event b (e # es) m = Dispatch_loop event b es (Dispatch_iter event b e m)"

text \<open>\<open>now\<close> is the value of \<open>time.Now().UTC()\<close> at the call.\<close>

definition Dispatch :: "'d env \<Rightarrow> int \<Rightarrow> Manager \<Rightarrow> string \<Rightarrow> 'd \<Rightarrow> Manager" where
  "Dispatch env now m event dat =
     (if length (endpoints m) = 0 then m
      else (let pay = \<lparr>Event = event, Timestamp = now, Data = dat\<rparr>;
                m1 = m\<lparr>marshalled := marshalled m + 1\<rparr>
            in case json_Marshal env pay of
                 Inl err \<Rightarrow>
                   m1\<lparr>log := log m1 @ [''webhook: error marshalling payload: '' @ err]\<rparr>
               | Inr b \<Rightarrow> Dispatch_loop event b (endpoints m1) m1))"

section \<open>The worker and the interleaving of producers and worker\<close>

text \<open>
  The manager is shared by the goroutines that call \<open>Dispatch\<close> or \<open>Close\<close> and by the
  worker. Channel operations are atomic, so a run of the system is a sequence of the
  following actions, taken in any order:
  \<^item> \<open>Offer event b e\<close>: one pass of the loop of a \<open>Dispatch\<close> call that has serialized
    its payload to \<open>b\<close>, for the endpoint \<open>e\<close>;
  \<^item> \<open>Recv\<close>: the worker's case \<open>job := <-m.ch\<close>, which takes the oldest job and runs
    \<open>send\<close> to its end before the worker selects again;
  \<^item> \<open>Stop\<close>: the worker's case \<open><-m.closeCh\<close>, which returns from the loop;
  \<^item> \<open>Shut\<close>: a call of \<open>Close\<close>.
  An action whose case is not ready leaves the state as it is. A panic ends the run.

  \<open>worker\<close> is one pass of the worker's loop, for the case of the \<open>select\<close> that is
  taken: the receive from \<open>m.ch\<close>, ready when the channel holds a job, or the receive
  from \<open>m.closeCh\<close>, ready once that channel is closed. When both are ready either may be
  taken. The worker makes passes only while it is running.
\<close>

datatype select_case = recv_job | recv_close

fun worker :: "'d env \<Rightarrow> select_case \<Rightarrow> Manager \<Rightarrow> Manager" where
  "worker env recv_job m =
     (case ch m of
        [] \<Rightarrow> m
      | job # rest \<Rightarrow> send env (m\<lparr>ch := rest\<rparr>) (ep job) (payload job))"
| "worker env recv_close m = (if closeCh m then m\<lparr>running := False\<rparr> else m)"

datatype action = Offer string bytes endpoint | Recv | Stop | Shut

fun step :: "'d env \<Rightarrow> action \<Rightarrow> Manager \<Rightarrow> string + Manager" where
  "step env (Offer event b e) m = Inr (Dispatch_iter event b e m)"
| "step env Recv m = Inr (if running m then worker env recv_job m else m)"
| "step env Stop m = Inr (if running m then worker env recv_close m else m)"
| "step env Shut m = Close m"

fun exec :: "'d env \<Rightarrow> action list \<Rightarrow> Manager \<Rightarrow> Manager" where
  "exec env [] m = m"
| "exec env (a # as) m =
     (case step env a m of Inl p \<Rightarrow> m | Inr m' \<Rightarrow> exec env as m')"

text \<open>The job that an action puts into the channel, and the job that it takes out.\<close>

fun accepted :: "action \<Rightarrow> Manager \<Rightarrow> dispatchJob list" where
  "accepted (Offer event b e) m =
     (if map_index (events e) event \<and> length (ch m) < chan_cap
      then [\<lparr>ep = e, payload = b\<rparr>] else [])"
| "accepted a m = []"

fun taken :: "action \<Rightarrow> Manager \<Rightarrow> dispatchJob list" where
  "taken Recv m = (if running m then take 1 (ch m) else [])"
| "taken a m = []"

text \<open>The jobs enqueued and the jobs delivered during a run, each in the order of the run.\<close>

fun enqueued :: "'d env \<Rightarrow> action list \<Rightarrow> Manager \<Rightarrow> dispatchJob list" where
  "enqueued env [] m = []"
| "enqueued env (a # as) m =
     (case step env a m of Inl p \<Rightarrow> [] | Inr m' \<Rightarrow> accepted a m @ enqueued env as m')"

fun delivered :: "'d env \<Rightarrow> action list \<Rightarrow> Manager \<Rightarrow> dispatchJob list" where
  "delivered env [] m = []"
| "delivered env (a # as) m =
     (case step env a m of Inl p \<Rightarrow> [] | Inr m' \<Rightarrow> taken a m @ delivered env as m')"

text \<open>The requests that \<open>send\<close> puts on the network for a job: none or one.\<close>

definition idle :: Manager where
  "idle = \<lparr>endpoints = [], log = [], ch = [], closeCh = False,
            wire = [], marshalled = 0, running = True\<rparr>"

definition requests_of :: "'d env \<Rightarrow> endpoint \<Rightarrow> bytes \<Rightarrow> Request list" where
  "requests_of env e pl = wire (send env idle e pl)"

section \<open>A sample configuration\<close>

text \<open>
  Two endpoints for running the definitions: one with a secret, whose event list names
  \<open>subscriber.created\<close> twice, and one without a secret. In the sample world every URL
  parses and every request is answered with status 200; the serializer is a stand-in
  that prints the event kind, and \<open>hmac_sha256\<close> is the table of the one HMAC-SHA256
  digest needed, that of \<open>{event:subscriber.created}\<close> under the key \<open>my-secret-key\<close>.
\<close>

definition opt_signed :: Opt where
  "opt_signed =
     \<lparr>UUID = ''u-1'', Name = ''crm'', URL = ''https://crm.example/hook'',
      Secret = ''my-secret-key'',
      Events = [EventSubscriberCreated, EventCampaignStarted, EventSubscriberCreated],
      MaxConns = 0, Timeout = 0\<rparr>"

definition opt_plain :: Opt where
  "opt_plain =
     \<lparr>UUID = ''u-2'', Name = ''audit'', URL = ''http://audit.example/in'',
      Secret = '''',
      Events = [EventSubscriberCreated, ''custom.event''],
      MaxConns = 20, Timeout = 30 * Second\<rparr>"

definition sample_digest :: bytes where
  "sample_digest =
     [CHR 0xb8, CHR 0x77, CHR 0xa5, CHR 0x99, CHR 0x95, CHR 0xeb, CHR 0xba, CHR 0xdf,
      CHR 0xbe, CHR 0x56, CHR 0x93, CHR 0xba, CHR 0x9b, CHR 0x50, CHR 0xb3, CHR 0x87,
      CHR 0x69, CHR 0x2b, CHR 0x70, CHR 0x90, CHR 0xc5, CHR 0x88, CHR 0xa5, CHR 0xe3,
      CHR 0xf0, CHR 0xdc, CHR 0x5d, CHR 0x3f, CHR 0xeb, CHR 0x87, CHR 0x12, CHR 0x91]"

definition sample_env :: "unit env" where
  "sample_env =
     \<lparr>json_Marshal = (\<lambda>p. Inr (''{event:'' @ Event p @ ''}'')),
      hmac_sha256 = (\<lambda>key msg.
         if key = ''my-secret-key'' \<and> msg = ''{event:subscriber.created}''
         then sample_digest else []),
      url_error = (\<lambda>u. None),
      client_Do = (\<lambda>n c req. Inr 200)\<rparr>"

definition sample_manager :: Manager where
  "sample_manager = New [opt_signed, opt_plain] []"

definition sample_job :: dispatchJob where
  "sample_job = \<lparr>ep = New_endpoint opt_plain, payload = ''{event:subscriber.created}''\<rparr>"

text \<open>The sample manager with a full channel: the worker is held up and 1000 jobs wait.\<close>

definition full_manager :: Manager where
  "full_manager = sample_manager\<lparr>ch := replicate 1000 sample_job\<rparr>"

text \<open>A world in which serialization fails, as it does for a value that holds a channel.\<close>

definition failing_env :: "unit env" where
  "failing_env = sample_env\<lparr>json_Marshal := (\<lambda>p. Inl ''json: unsupported type: chan int'')\<rparr>"

section \<open>Properties\<close>

lemmas Event_defs =
  EventSubscriberCreated_def EventSubscriberUpdated_def EventSubscriberUnsubscribed_def
  EventSubscriberConfirmed_def EventSubscriberBlocklisted_def EventSubscriberDeleted_def
  EventCampaignStarted_def EventCampaignFinished_def
  EventLinkClick_def EventEmailOpen_def EventBounce_def

subsection \<open>Hex encoding\<close>

lemma of_char_div_16: "(of_char v :: nat) div 16 < 16"
proof -
  have "(of_char v :: nat) mod 256 < 256" by simp
  then have "(of_char v :: nat) < 16 * 16" by simp
  then show ?thesis by (rule less_mult_imp_div_less)
qed

lemma EncodeToString_hex: "set (EncodeToString bs) \<subseteq> set ''0123456789abcdef''"
proof -
  have "(of_char v :: nat) mod 16 < 16" for v :: char by simp
  moreover have "length hextable = 16" by (simp add: hextable_def)
  ultimately have "set (EncodeToString bs) \<subseteq> set hextable"
    using of_char_div_16 by (auto simp: EncodeToString_def)
  then show ?thesis by (simp add: hextable_def)
qed

lemma EncodeToString_length: "length (EncodeToString bs) = 2 * length bs"
  by (induction bs) (simp_all add: EncodeToString_def)

subsection \<open>send\<close>

lemma wire_send: "wire (send env m e pl) = wire m @ requests_of env e pl"
  by (simp add: send_def requests_of_def idle_def Let_def split: sum.splits)

lemma ch_send: "ch (send env m e pl) = ch m"
  by (simp add: send_def Let_def split: sum.splits)

lemma requests_of_eq:
  "requests_of env e pl =
     (case url_error env (url e) of
        Some err \<Rightarrow> []
      | None \<Rightarrow>
          [\<lparr>Method = ''POST'', ReqURL = url e,
            Hdr = (if secret e \<noteq> ''''
                   then [''Content-Type'' \<mapsto> [''application/json''],
                         ''User-Agent'' \<mapsto> [''listmonk''],
                         ''X-Webhook-Signature'' \<mapsto> [''sha256='' @ computeHMAC env pl (secret e)]]
                   else [''Content-Type'' \<mapsto> [''application/json''],
                         ''User-Agent'' \<mapsto> [''listmonk'']]),
            Body = pl\<rparr>])"
proof (cases "url_error env (url e)")
  case None
  then show ?thesis
    by (cases "secret e = ''''")
       (auto simp: requests_of_def send_def idle_def http_NewRequest_def Header_Set_def Let_def
             split: sum.splits)
next
  case (Some err)
  then show ?thesis
    by (simp add: requests_of_def send_def idle_def http_NewRequest_def)
qed

text \<open>
  Claim C1. Whatever \<open>send\<close> is called with, it hands at most one request to the client,
  exactly one when the URL parses. The body of that request is the payload it was given.
  For an endpoint with a non-empty secret the header \<open>X-Webhook-Signature\<close> has the single
  value \<open>sha256=\<close> followed by the hex encoding of the HMAC-SHA256 digest of these same
  payload bytes under the secret as key; for an endpoint with the empty secret the header
  is absent. The encoding uses the digits \<open>0-9\<close> and \<open>a-f\<close> only.
\<close>

theorem signature_header:
  "\<exists>rs. wire (send env m e pl) = wire m @ rs
     \<and> length rs = (if url_error env (url e) = None then 1 else 0)
     \<and> (\<forall>r \<in> set rs.
           Body r = pl \<and>
           Hdr r ''X-Webhook-Signature'' =
             (if secret e = '''' then None
              else Some [''sha256='' @ EncodeToString (hmac_sha256 env (secret e) pl)]))
     \<and> set (EncodeToString (hmac_sha256 env (secret e) pl)) \<subseteq> set ''0123456789abcdef''"
proof -
  let ?rs = "requests_of env e pl"
  have "wire (send env m e pl) = wire m @ ?rs" by (rule wire_send)
  moreover have "length ?rs = (if url_error env (url e) = None then 1 else 0)"
    by (simp add: requests_of_eq split: option.splits)
  moreover have "\<forall>r \<in> set ?rs.
           Body r = pl \<and>
           Hdr r ''X-Webhook-Signature'' =
             (if secret e = '''' then None
              else Some [''sha256='' @ EncodeToString (hmac_sha256 env (secret e) pl)])"
    by (simp add: requests_of_eq computeHMAC_def split: option.splits)
  ultimately show ?thesis using EncodeToString_hex by blast
qed

theorem signature_header_witness:
  "wire (send sample_env idle (New_endpoint opt_signed) ''{event:subscriber.created}'') =
     [\<lparr>Method = ''POST'', ReqURL = ''https://crm.example/hook'',
       Hdr = [''Content-Type'' \<mapsto> [''application/json''],
              ''User-Agent'' \<mapsto> [''listmonk''],
              ''X-Webhook-Signature'' \<mapsto>
                [''sha256=b877a59995ebbadfbe5693ba9b50b387692b7090c588a5e3f0dc5d3feb871291'']],
       Body = ''{event:subscriber.created}''\<rparr>]"
  using signature_header [of sample_env idle "New_endpoint opt_signed" "''{event:subscriber.created}''"]
  by (simp add: wire_send requests_of_eq computeHMAC_def EncodeToString_def hextable_def
        sample_env_def sample_digest_def New_endpoint_def opt_signed_def idle_def Let_def)

subsection \<open>Construction\<close>

lemma New_loop_eq: "New_loop m opts = m\<lparr>endpoints := endpoints m @ map New_endpoint opts\<rparr>"
  by (induction opts arbitrary: m) simp_all

lemma endpoints_New: "endpoints (New opts lo) = map New_endpoint opts"
  by (simp add: New_def New_loop_eq)

lemma ch_New: "ch (New opts lo) = []"
  by (simp add: New_def New_loop_eq)

lemma New_events_eq: "New_events evs es = (\<lambda>k. if k \<in> set es then Some True else evs k)"
  by (induction es arbitrary: evs) auto

lemma subscribed_New_endpoint:
  "map_index (events (New_endpoint opt)) e = (e \<in> set (Events opt))"
  by (simp add: New_endpoint_def map_index_def New_events_eq Let_def)

subsection \<open>The dispatch loop\<close>

lemma Dispatch_loop_eq:
  "Dispatch_loop event b es m =
     m\<lparr>ch := ch m @ map (\<lambda>e. \<lparr>ep = e, payload = b\<rparr>)
                      (take (chan_cap - length (ch m))
                         (filter (\<lambda>e. map_index (events e) event) es)),
       log := log m @
              map (\<lambda>e. ''webhook: dispatch queue full, dropping event '' @ event @ '' for ''
                         @ name e)
                  (drop (chan_cap - length (ch m))
                     (filter (\<lambda>e. map_index (events e) event) es))\<rparr>"
proof (induction es arbitrary: m)
  case Nil
  show ?case by simp
next
  case (Cons e es)
  show ?case
  proof (cases "map_index (events e) event")
    case False
    then show ?thesis by (simp add: Cons.IH Dispatch_iter_def)
  next
    case sub: True
    show ?thesis
    proof (cases "length (ch m) < chan_cap")
      case True
      then obtain k where k: "chan_cap - length (ch m) = Suc k"
        by (metis Suc_diff_Suc)
      then have "chan_cap - Suc (length (ch m)) = k" by simp
      with sub True k show ?thesis
        by (simp add: Cons.IH Dispatch_iter_def)
    next
      case False
      then have "chan_cap - length (ch m) = 0" by simp
      with sub False show ?thesis
        by (simp add: Cons.IH Dispatch_iter_def)
    qed
  qed
qed

lemma Dispatch_ok:
  assumes "endpoints m \<noteq> []"
    and "json_Marshal env \<lparr>Event = event, Timestamp = now, Data = dat\<rparr> = Inr b"
  shows "Dispatch env now m event dat =
           Dispatch_loop event b (endpoints m) (m\<lparr>marshalled := marshalled m + 1\<rparr>)"
  using assms by (simp add: Dispatch_def)

lemma Dispatch_err:
  assumes "endpoints m \<noteq> []"
    and "json_Marshal env \<lparr>Event = event, Timestamp = now, Data = dat\<rparr> = Inl err"
  shows "Dispatch env now m event dat =
           m\<lparr>marshalled := marshalled m + 1,
             log := log m @ [''webhook: error marshalling payload: '' @ err]\<rparr>"
  using assms by (simp add: Dispatch_def)

lemma Dispatch_empty: "endpoints m = [] \<Longrightarrow> Dispatch env now m event dat = m"
  by (simp add: Dispatch_def)

lemma Dispatch_loop_exec:
  "Dispatch_loop event b es m = exec env (map (Offer event b) es) m"
  by (induction es arbitrary: m) simp_all

lemma replicate_1000: "replicate 1000 x = x # replicate 999 x"
  using replicate_Suc [of 999 x] by simp

text \<open>
  Claim C2. The channel has capacity 1000, shared by all endpoints. A \<open>Dispatch\<close> call
  that gets past serialization returns, whatever the state of the channel, having tried
  every subscribed endpoint once, in the order of the endpoint list: while the channel
  has room the endpoint's job is appended to it; an endpoint that finds the channel full
  gets no job and one log line that names the event kind and the endpoint, and the loop
  goes on to the next endpoint. The channel never grows beyond its capacity. The last
  part shows that a drop does not stand in the way of a later endpoint: on a full channel
  the pass for one endpoint drops its job and logs the drop, and when the worker takes a
  job before the next pass, that pass enqueues the job of its endpoint.
\<close>

theorem dispatch_enqueue_nonblocking:
  assumes "endpoints m \<noteq> []"
    and "json_Marshal env \<lparr>Event = event, Timestamp = now, Data = dat\<rparr> = Inr b"
  shows "chan_cap = 1000
     \<and> ch (Dispatch env now m event dat) =
         ch m @ map (\<lambda>e. \<lparr>ep = e, payload = b\<rparr>)
                  (take (chan_cap - length (ch m))
                     (filter (\<lambda>e. map_index (events e) event) (endpoints m)))
     \<and> log (Dispatch env now m event dat) =
         log m @ map (\<lambda>e. ''webhook: dispatch queue full, dropping event '' @ event @ '' for ''
                             @ name e)
                   (drop (chan_cap - length (ch m))
                      (filter (\<lambda>e. map_index (events e) event) (endpoints m)))
     \<and> (length (ch m) \<le> chan_cap \<longrightarrow> length (ch (Dispatch env now m event dat)) \<le> chan_cap)
     \<and> (length (ch m) = chan_cap \<and> running m \<and>
          map_index (events e1) event \<and> map_index (events e2) event \<longrightarrow>
          ch (exec env [Offer event b e1] m) = ch m
          \<and> log (exec env [Offer event b e1] m) =
              log m @ [''webhook: dispatch queue full, dropping event '' @ event @ '' for ''
                         @ name e1]
          \<and> ch (exec env [Offer event b e1, Recv, Offer event b e2] m) =
              tl (ch m) @ [\<lparr>ep = e2, payload = b\<rparr>])"
proof -
  let ?m' = "Dispatch env now m event dat"
  have eq: "?m' = Dispatch_loop event b (endpoints m) (m\<lparr>marshalled := marshalled m + 1\<rparr>)"
    using assms by (rule Dispatch_ok)
  have c: "ch ?m' =
         ch m @ map (\<lambda>e. \<lparr>ep = e, payload = b\<rparr>)
                  (take (chan_cap - length (ch m))
                     (filter (\<lambda>e. map_index (events e) event) (endpoints m)))"
    by (simp add: eq Dispatch_loop_eq)
  have l: "log ?m' =
         log m @ map (\<lambda>e. ''webhook: dispatch queue full, dropping event '' @ event @ '' for ''
                             @ name e)
                   (drop (chan_cap - length (ch m))
                      (filter (\<lambda>e. map_index (events e) event) (endpoints m)))"
    by (simp add: eq Dispatch_loop_eq)
  have b: "length (ch ?m') \<le> chan_cap" if "length (ch m) \<le> chan_cap"
    using that by (simp add: c)
  have s: "ch (exec env [Offer event b e1, Recv, Offer event b e2] m) =
             tl (ch m) @ [\<lparr>ep = e2, payload = b\<rparr>]"
    if "length (ch m) = chan_cap" "running m"
       "map_index (events e1) event" "map_index (events e2) event"
  proof -
    from that(1) obtain j js where js: "ch m = j # js"
      by (cases "ch m") (simp_all add: chan_cap_def)
    with that(1) have "length js < chan_cap" by simp
    with that js show ?thesis
      by (simp add: Dispatch_iter_def ch_send)
  qed
  have d: "ch (exec env [Offer event b e1] m) = ch m
          \<and> log (exec env [Offer event b e1] m) =
              log m @ [''webhook: dispatch queue full, dropping event '' @ event @ '' for ''
                         @ name e1]"
    if "length (ch m) = chan_cap" "map_index (events e1) event"
    using that by (simp add: Dispatch_iter_def)
  show ?thesis using c l b s d by (simp add: chan_cap_def)
qed

theorem dispatch_enqueue_nonblocking_witness:
  "length (ch full_manager) = 1000
   \<and> ch (Dispatch sample_env 0 full_manager EventSubscriberCreated ()) = ch full_manager
   \<and> log (Dispatch sample_env 0 full_manager EventSubscriberCreated ()) =
       [''webhook: dispatch queue full, dropping event subscriber.created for crm'',
        ''webhook: dispatch queue full, dropping event subscriber.created for audit'']
   \<and> ch (exec sample_env
           [Offer EventSubscriberCreated ''{event:subscriber.created}'' (New_endpoint opt_signed),
            Recv,
            Offer EventSubscriberCreated ''{event:subscriber.created}'' (New_endpoint opt_plain)]
           full_manager) = replicate 1000 sample_job"
proof -
  have e: "endpoints full_manager = [New_endpoint opt_signed, New_endpoint opt_plain]"
    by (simp add: full_manager_def sample_manager_def endpoints_New)
  have h1: "endpoints full_manager \<noteq> []" by (simp add: e)
  have h2: "json_Marshal sample_env \<lparr>Event = EventSubscriberCreated, Timestamp = 0, Data = ()\<rparr>
              = Inr ''{event:subscriber.created}''"
    by (simp add: sample_env_def EventSubscriberCreated_def)
  have s1: "map_index (events (New_endpoint opt_signed)) EventSubscriberCreated"
    by (simp add: subscribed_New_endpoint opt_signed_def)
  have s2: "map_index (events (New_endpoint opt_plain)) EventSubscriberCreated"
    by (simp add: subscribed_New_endpoint opt_plain_def)
  have n: "name (New_endpoint opt_signed) = ''crm''" "name (New_endpoint opt_plain) = ''audit''"
    by (simp_all add: New_endpoint_def opt_signed_def opt_plain_def Let_def)
  have c: "ch full_manager = replicate 1000 sample_job" "running full_manager"
    by (simp_all add: full_manager_def sample_manager_def New_def New_loop_eq)
  have lg: "log full_manager = []"
    by (simp add: full_manager_def sample_manager_def New_def New_loop_eq)
  have t: "replicate 999 sample_job @ [sample_job] = replicate 1000 sample_job"
    by (simp add: replicate_1000 replicate_append_same)
  have j: "\<lparr>ep = New_endpoint opt_plain, payload = ''{event:subscriber.created}''\<rparr> = sample_job"
    by (simp add: sample_job_def)
  show ?thesis
    using dispatch_enqueue_nonblocking [OF h1 h2, of "New_endpoint opt_signed" "New_endpoint opt_plain"]
    by (simp add: e s1 [unfolded EventSubscriberCreated_def] s2 [unfolded EventSubscriberCreated_def]
          n c t j lg chan_cap_def EventSubscriberCreated_def)
qed

subsection \<open>Runs\<close>

lemma running_send: "running (send env m e pl) = running m"
  by (simp add: send_def Let_def split: sum.splits)

lemma fifo_step:
  "step env a m = Inr m' \<Longrightarrow> taken a m @ ch m' = ch m @ accepted a m"
  by (cases a) (auto simp: Dispatch_iter_def ch_send Close_def split: list.splits if_splits)

lemma fifo_exec: "delivered env as m @ ch (exec env as m) = ch m @ enqueued env as m"
proof (induction as arbitrary: m)
  case Nil
  show ?case by simp
next
  case (Cons a as)
  show ?case
  proof (cases "step env a m")
    case (Inl p)
    then show ?thesis by simp
  next
    case (Inr m')
    have "delivered env (a # as) m @ ch (exec env (a # as) m)
          = taken a m @ (delivered env as m' @ ch (exec env as m'))"
      using Inr by simp
    also have "\<dots> = taken a m @ ch m' @ enqueued env as m'"
      by (simp add: Cons.IH)
    also have "\<dots> = ch m @ accepted a m @ enqueued env as m'"
      using fifo_step [OF Inr] by (metis append.assoc)
    finally show ?thesis using Inr by simp
  qed
qed

lemma wire_step:
  "step env a m = Inr m' \<Longrightarrow>
     wire m' = wire m @ concat (map (\<lambda>j. requests_of env (ep j) (payload j)) (taken a m))"
  by (cases a) (auto simp: Dispatch_iter_def wire_send Close_def split: list.splits if_splits)

lemma wire_exec:
  "wire (exec env as m) =
     wire m @ concat (map (\<lambda>j. requests_of env (ep j) (payload j)) (delivered env as m))"
proof (induction as arbitrary: m)
  case Nil
  show ?case by simp
next
  case (Cons a as)
  show ?case
    by (cases "step env a m") (simp_all add: Cons.IH wire_step)
qed

lemma accepted_offered:
  "j \<in> set (accepted a m) \<Longrightarrow>
     \<exists>ev. a = Offer ev (payload j) (ep j) \<and> map_index (events (ep j)) ev"
  by (cases a) (auto split: if_splits)

lemma enqueued_offered:
  "j \<in> set (enqueued env as m) \<Longrightarrow>
     \<exists>ev. Offer ev (payload j) (ep j) \<in> set as \<and> map_index (events (ep j)) ev"
proof (induction as arbitrary: m)
  case Nil
  then show ?case by simp
next
  case (Cons a as)
  show ?case
  proof (cases "step env a m")
    case (Inl p)
    with Cons.prems show ?thesis by simp
  next
    case (Inr m')
    with Cons.prems have "j \<in> set (accepted a m) \<or> j \<in> set (enqueued env as m')"
      by simp
    then show ?thesis
    proof
      assume "j \<in> set (accepted a m)"
      then show ?thesis using accepted_offered by fastforce
    next
      assume "j \<in> set (enqueued env as m')"
      then show ?thesis using Cons.IH by fastforce
    qed
  qed
qed

lemma delivered_offered:
  assumes "ch m = []" and "j \<in> set (delivered env as m)"
  shows "\<exists>ev. Offer ev (payload j) (ep j) \<in> set as \<and> map_index (events (ep j)) ev"
proof -
  have "set (delivered env as m) \<subseteq> set (ch m @ enqueued env as m)"
    using fifo_exec [of env as m] by (metis set_append Un_upper1)
  with assms have "j \<in> set (enqueued env as m)" by auto
  then show ?thesis by (rule enqueued_offered)
qed

lemma ch_Dispatch:
  "\<exists>es. set es \<subseteq> {e \<in> set (endpoints m). map_index (events e) event}
     \<and> (\<forall>b. json_Marshal env \<lparr>Event = event, Timestamp = now, Data = dat\<rparr> = Inr b \<longrightarrow>
            ch (Dispatch env now m event dat) = ch m @ map (\<lambda>e. \<lparr>ep = e, payload = b\<rparr>) es)
     \<and> (\<forall>err. json_Marshal env \<lparr>Event = event, Timestamp = now, Data = dat\<rparr> = Inl err \<longrightarrow>
            ch (Dispatch env now m event dat) = ch m)"
proof (cases "endpoints m = []")
  case True
  then have "ch (Dispatch env now m event dat) = ch m @ map (\<lambda>e. \<lparr>ep = e, payload = b\<rparr>) []"
    for b by (simp add: Dispatch_empty)
  moreover have "ch (Dispatch env now m event dat) = ch m"
    using True by (simp add: Dispatch_empty)
  ultimately show ?thesis by (intro exI [of _ "[]"]) simp
next
  case False
  let ?es = "take (chan_cap - length (ch m))
               (filter (\<lambda>e. map_index (events e) event) (endpoints m))"
  have "set ?es \<subseteq> {e \<in> set (endpoints m). map_index (events e) event}"
    using set_take_subset [of "chan_cap - length (ch m)"
            "filter (\<lambda>e. map_index (events e) event) (endpoints m)"]
    by auto
  moreover have "ch (Dispatch env now m event dat) = ch m @ map (\<lambda>e. \<lparr>ep = e, payload = b\<rparr>) ?es"
    if "json_Marshal env \<lparr>Event = event, Timestamp = now, Data = dat\<rparr> = Inr b" for b
    using False that by (simp add: Dispatch_ok Dispatch_loop_eq)
  moreover have "ch (Dispatch env now m event dat) = ch m"
    if "json_Marshal env \<lparr>Event = event, Timestamp = now, Data = dat\<rparr> = Inl err" for err
    using False that by (simp add: Dispatch_err)
  ultimately show ?thesis by (intro exI [of _ ?es]) blast
qed

lemma new_jobs_Dispatch:
  "\<exists>js. ch (Dispatch env now m event dat) = ch m @ js
      \<and> (\<forall>j \<in> set js. ep j \<in> set (endpoints m) \<and> map_index (events (ep j)) event)"
proof -
  obtain es where es: "set es \<subseteq> {e \<in> set (endpoints m). map_index (events e) event}"
    and ok: "\<And>b. json_Marshal env \<lparr>Event = event, Timestamp = now, Data = dat\<rparr> = Inr b \<Longrightarrow>
            ch (Dispatch env now m event dat) = ch m @ map (\<lambda>e. \<lparr>ep = e, payload = b\<rparr>) es"
    and err: "\<And>err. json_Marshal env \<lparr>Event = event, Timestamp = now, Data = dat\<rparr> = Inl err \<Longrightarrow>
            ch (Dispatch env now m event dat) = ch m"
    using ch_Dispatch [of m event env now dat] by blast
  show ?thesis
  proof (cases "json_Marshal env \<lparr>Event = event, Timestamp = now, Data = dat\<rparr>")
    case (Inl e)
    then have "ch (Dispatch env now m event dat) = ch m @ []" by (simp add: err)
    then show ?thesis by (intro exI [of _ "[]"]) simp
  next
    case (Inr b)
    then have "ch (Dispatch env now m event dat) = ch m @ map (\<lambda>e. \<lparr>ep = e, payload = b\<rparr>) es"
      by (rule ok)
    moreover have "\<forall>j \<in> set (map (\<lambda>e. \<lparr>ep = e, payload = b\<rparr>) es).
                     ep j \<in> set (endpoints m) \<and> map_index (events (ep j)) event"
      using es by auto
    ultimately show ?thesis by blast
  qed
qed

text \<open>
  Claim C3. An emit of an event kind creates no job for an endpoint whose subscription
  map does not hold the kind: the jobs for such an endpoint in the channel are the same
  before and after \<open>Dispatch\<close>. The jobs that \<open>Dispatch\<close> adds all belong to endpoints of
  the manager that are subscribed to the kind. The subscription map that \<open>New\<close> builds from
  a record holds exactly the kinds of the record's event list. Since the worker sends
  only what it takes from the channel, in every run from an empty channel each delivered
  job was offered for an event kind to which its endpoint is subscribed.
\<close>

theorem event_filtering:
  "(\<not> map_index (events E) event \<longrightarrow>
      filter (\<lambda>j. ep j = E) (ch (Dispatch env now m event dat)) = filter (\<lambda>j. ep j = E) (ch m))
   \<and> (\<exists>js. ch (Dispatch env now m event dat) = ch m @ js
         \<and> (\<forall>j \<in> set js. ep j \<in> set (endpoints m) \<and> map_index (events (ep j)) event))
   \<and> map_index (events (New_endpoint opt)) event = (event \<in> set (Events opt))
   \<and> (ch m = [] \<longrightarrow>
        (\<forall>j \<in> set (delivered env as m).
           \<exists>ev. Offer ev (payload j) (ep j) \<in> set as \<and> map_index (events (ep j)) ev))"
proof -
  obtain js where js: "ch (Dispatch env now m event dat) = ch m @ js"
    and sub: "\<forall>j \<in> set js. ep j \<in> set (endpoints m) \<and> map_index (events (ep j)) event"
    using new_jobs_Dispatch [of env now m event dat] by blast
  have "filter (\<lambda>j. ep j = E) js = []" if "\<not> map_index (events E) event"
    using that sub by (auto simp: filter_empty_conv)
  then have "\<not> map_index (events E) event \<longrightarrow>
      filter (\<lambda>j. ep j = E) (ch (Dispatch env now m event dat)) = filter (\<lambda>j. ep j = E) (ch m)"
    by (simp add: js)
  moreover have "\<exists>js. ch (Dispatch env now m event dat) = ch m @ js
         \<and> (\<forall>j \<in> set js. ep j \<in> set (endpoints m) \<and> map_index (events (ep j)) event)"
    using js sub by blast
  moreover have "ch m = [] \<longrightarrow>
        (\<forall>j \<in> set (delivered env as m).
           \<exists>ev. Offer ev (payload j) (ep j) \<in> set as \<and> map_index (events (ep j)) ev)"
    using delivered_offered by blast
  ultimately show ?thesis by (simp add: subscribed_New_endpoint)
qed


lemma sample_manager_simps:
  "endpoints sample_manager = [New_endpoint opt_signed, New_endpoint opt_plain]"
  "ch sample_manager = []" "log sample_manager = []" "wire sample_manager = []"
  "marshalled sample_manager = 0" "running sample_manager" "\<not> closeCh sample_manager"
  by (simp_all add: sample_manager_def New_def New_loop_eq)

lemma sample_subscriptions:
  "map_index (events (New_endpoint opt_signed)) EventSubscriberCreated"
  "map_index (events (New_endpoint opt_signed)) EventCampaignStarted"
  "map_index (events (New_endpoint opt_plain)) EventSubscriberCreated"
  "\<not> map_index (events (New_endpoint opt_plain)) EventCampaignStarted"
  "map_index (events (New_endpoint opt_plain)) ''custom.event''"
  "\<not> map_index (events (New_endpoint opt_signed)) ''custom.event''"
  by (simp_all add: subscribed_New_endpoint opt_signed_def opt_plain_def Event_defs)

theorem event_filtering_witness:
  "\<not> map_index (events (New_endpoint opt_plain)) EventCampaignStarted
   \<and> filter (\<lambda>j. ep j = New_endpoint opt_plain)
        (ch (Dispatch sample_env 0 sample_manager EventCampaignStarted ())) = []
   \<and> delivered sample_env
        [Offer EventCampaignStarted ''{}'' (New_endpoint opt_plain),
         Offer EventCampaignStarted ''{}'' (New_endpoint opt_signed), Recv, Recv]
        sample_manager = [\<lparr>ep = New_endpoint opt_signed, payload = ''{}''\<rparr>]
   \<and> (\<exists>ev. Offer ev ''{}'' (New_endpoint opt_signed) \<in>
               set [Offer EventCampaignStarted ''{}'' (New_endpoint opt_plain),
                    Offer EventCampaignStarted ''{}'' (New_endpoint opt_signed), Recv, Recv]
             \<and> map_index (events (New_endpoint opt_signed)) ev)"
proof -
  note T = event_filtering [of "New_endpoint opt_plain" EventCampaignStarted sample_env 0
      sample_manager "()" opt_plain
      "[Offer EventCampaignStarted ''{}'' (New_endpoint opt_plain),
        Offer EventCampaignStarted ''{}'' (New_endpoint opt_signed), Recv, Recv]"]
  have d: "delivered sample_env
        [Offer EventCampaignStarted ''{}'' (New_endpoint opt_plain),
         Offer EventCampaignStarted ''{}'' (New_endpoint opt_signed), Recv, Recv]
        sample_manager = [\<lparr>ep = New_endpoint opt_signed, payload = ''{}''\<rparr>]"
    by (simp add: Dispatch_iter_def sample_subscriptions sample_manager_simps chan_cap_def
          ch_send running_send)
  from T have f: "\<not> map_index (events (New_endpoint opt_plain)) EventCampaignStarted \<longrightarrow>
      filter (\<lambda>j. ep j = New_endpoint opt_plain)
        (ch (Dispatch sample_env 0 sample_manager EventCampaignStarted ())) =
      filter (\<lambda>j. ep j = New_endpoint opt_plain) (ch sample_manager)"
    by blast
  from T have a: "ch sample_manager = [] \<longrightarrow>
     (\<forall>j \<in> set (delivered sample_env
        [Offer EventCampaignStarted ''{}'' (New_endpoint opt_plain),
         Offer EventCampaignStarted ''{}'' (New_endpoint opt_signed), Recv, Recv]
        sample_manager).
        \<exists>ev. Offer ev (payload j) (ep j) \<in>
               set [Offer EventCampaignStarted ''{}'' (New_endpoint opt_plain),
                    Offer EventCampaignStarted ''{}'' (New_endpoint opt_signed), Recv, Recv]
             \<and> map_index (events (ep j)) ev)"
    by blast
  from a [unfolded d] sample_manager_simps(2)
  have "\<exists>ev. Offer ev ''{}'' (New_endpoint opt_signed) \<in>
               set [Offer EventCampaignStarted ''{}'' (New_endpoint opt_plain),
                    Offer EventCampaignStarted ''{}'' (New_endpoint opt_signed), Recv, Recv]
             \<and> map_index (events (New_endpoint opt_signed)) ev"
    by simp
  moreover from f sample_subscriptions(4) sample_manager_simps(2)
  have "filter (\<lambda>j. ep j = New_endpoint opt_plain)
        (ch (Dispatch sample_env 0 sample_manager EventCampaignStarted ())) = []"
    by simp
  ultimately show ?thesis
    using d sample_subscriptions(4) by (intro conjI)
qed

text \<open>
  Claim C4. A \<open>Dispatch\<close> call on a manager with at least one endpoint calls
  \<open>json.Marshal\<close> exactly once. When the call yields the bytes \<open>b\<close>, every job the call
  adds to the channel carries these same bytes \<open>b\<close>. When it fails, the call leaves one
  line in the log and changes nothing else: no job is enqueued for any endpoint and
  nothing is sent.
\<close>

theorem serialize_once:
  assumes "endpoints m \<noteq> []"
  shows "marshalled (Dispatch env now m event dat) = marshalled m + 1
     \<and> (\<forall>b. json_Marshal env \<lparr>Event = event, Timestamp = now, Data = dat\<rparr> = Inr b \<longrightarrow>
          (\<exists>es. ch (Dispatch env now m event dat) =
                  ch m @ map (\<lambda>e. \<lparr>ep = e, payload = b\<rparr>) es))
     \<and> (\<forall>err. json_Marshal env \<lparr>Event = event, Timestamp = now, Data = dat\<rparr> = Inl err \<longrightarrow>
          Dispatch env now m event dat =
            m\<lparr>marshalled := marshalled m + 1,
              log := log m @ [''webhook: error marshalling payload: '' @ err]\<rparr>)"
proof -
  have "marshalled (Dispatch env now m event dat) = marshalled m + 1"
  proof (cases "json_Marshal env \<lparr>Event = event, Timestamp = now, Data = dat\<rparr>")
    case (Inl err)
    with assms show ?thesis by (simp add: Dispatch_err)
  next
    case (Inr b)
    with assms show ?thesis by (simp add: Dispatch_ok Dispatch_loop_eq)
  qed
  moreover have "\<exists>es. ch (Dispatch env now m event dat) =
                  ch m @ map (\<lambda>e. \<lparr>ep = e, payload = b\<rparr>) es"
    if "json_Marshal env \<lparr>Event = event, Timestamp = now, Data = dat\<rparr> = Inr b" for b
    using ch_Dispatch [of m event env now dat] that by blast
  moreover have "Dispatch env now m event dat =
            m\<lparr>marshalled := marshalled m + 1,
              log := log m @ [''webhook: error marshalling payload: '' @ err]\<rparr>"
    if "json_Marshal env \<lparr>Event = event, Timestamp = now, Data = dat\<rparr> = Inl err" for err
    using assms that by (rule Dispatch_err)
  ultimately show ?thesis by blast
qed

theorem serialize_once_witness:
  "marshalled (Dispatch sample_env 0 sample_manager EventSubscriberCreated ()) = 1
   \<and> map payload (ch (Dispatch sample_env 0 sample_manager EventSubscriberCreated ())) =
       [''{event:subscriber.created}'', ''{event:subscriber.created}'']
   \<and> Dispatch failing_env 0 sample_manager EventSubscriberCreated () =
       sample_manager\<lparr>marshalled := 1,
         log := [''webhook: error marshalling payload: json: unsupported type: chan int'']\<rparr>"
proof -
  have h: "endpoints sample_manager \<noteq> []" by (simp add: sample_manager_simps)
  have ok: "json_Marshal sample_env \<lparr>Event = EventSubscriberCreated, Timestamp = 0, Data = ()\<rparr>
              = Inr ''{event:subscriber.created}''"
    by (simp add: sample_env_def EventSubscriberCreated_def)
  have err: "json_Marshal failing_env \<lparr>Event = EventSubscriberCreated, Timestamp = 0, Data = ()\<rparr>
              = Inl ''json: unsupported type: chan int''"
    by (simp add: failing_env_def)
  have l: "length (ch (Dispatch sample_env 0 sample_manager EventSubscriberCreated ())) = 2"
    by (simp add: Dispatch_ok [OF h ok] Dispatch_loop_eq sample_manager_simps
          sample_subscriptions chan_cap_def)
  from serialize_once [OF h, of sample_env 0 EventSubscriberCreated "()"] ok
  obtain es where m1: "marshalled (Dispatch sample_env 0 sample_manager EventSubscriberCreated ())
                     = marshalled sample_manager + 1"
    and es: "ch (Dispatch sample_env 0 sample_manager EventSubscriberCreated ()) =
        ch sample_manager @ map (\<lambda>e. \<lparr>ep = e, payload = ''{event:subscriber.created}''\<rparr>) es"
    by blast
  from l es have "length es = Suc (Suc 0)" by (simp add: sample_manager_simps)
  then obtain e1 e2 where "es = [e1, e2]"
    by (auto simp: length_Suc_conv)
  then have p: "map payload (ch (Dispatch sample_env 0 sample_manager EventSubscriberCreated ())) =
       [''{event:subscriber.created}'', ''{event:subscriber.created}'']"
    by (simp add: es sample_manager_simps)
  from serialize_once [OF h, of failing_env 0 EventSubscriberCreated "()"] err
  have "Dispatch failing_env 0 sample_manager EventSubscriberCreated () =
            sample_manager\<lparr>marshalled := marshalled sample_manager + 1,
              log := log sample_manager @
                [''webhook: error marshalling payload: '' @ ''json: unsupported type: chan int'']\<rparr>"
    by blast
  then have f: "Dispatch failing_env 0 sample_manager EventSubscriberCreated () =
       sample_manager\<lparr>marshalled := 1,
         log := [''webhook: error marshalling payload: json: unsupported type: chan int'']\<rparr>"
    by (simp only: sample_manager_simps append_Nil append_Cons add_0 )
  from m1 have "marshalled (Dispatch sample_env 0 sample_manager EventSubscriberCreated ()) = 1"
    by (simp only: sample_manager_simps add_0)
  with p f show ?thesis by (intro conjI)
qed

text \<open>
  Claim C7. \<open>HasEndpoints\<close> of a manager built by \<open>New\<close> is false exactly when the list of
  records is empty. On a manager without endpoints \<open>Dispatch\<close> returns the state as it
  found it: no call of the serializer is counted, the channel, the log and the requests
  sent are unchanged.
\<close>

theorem has_endpoints_and_empty_dispatch:
  "HasEndpoints (New opts lo) = (opts \<noteq> [])
   \<and> (\<not> HasEndpoints m \<longrightarrow> Dispatch env now m event dat = m)"
  by (simp add: HasEndpoints_def endpoints_New Dispatch_empty)

theorem has_endpoints_and_empty_dispatch_witness:
  "\<not> HasEndpoints (New [] [])
   \<and> HasEndpoints sample_manager
   \<and> Dispatch sample_env 0 (New [] []) EventSubscriberCreated () = New [] []"
  using has_endpoints_and_empty_dispatch [of "[]" "[]" "New [] []" sample_env 0 EventSubscriberCreated "()"]
    has_endpoints_and_empty_dispatch [of "[opt_signed, opt_plain]" "[]" "New [] []" sample_env 0
      EventSubscriberCreated "()"]
  by (simp add: sample_manager_def)

text \<open>
  Claim C8. \<open>New\<close> builds one endpoint per record, in order. The client of the endpoint
  built from a record has the record's timeout, or five seconds when that is zero; both
  per-host connection limits of its transport are the record's \<open>MaxConns\<close>, or 5 when that
  is zero; the idle-connection and the response-header timeouts equal the client's
  timeout.
\<close>

theorem client_defaults:
  assumes "i < length opts"
  shows "length (endpoints (New opts lo)) = length opts
     \<and> Client_Timeout (client (endpoints (New opts lo) ! i)) =
         (if Timeout (opts ! i) = 0 then 5 * Second else Timeout (opts ! i))
     \<and> MaxIdleConnsPerHost (Client_Transport (client (endpoints (New opts lo) ! i))) =
         (if MaxConns (opts ! i) = 0 then 5 else MaxConns (opts ! i))
     \<and> MaxConnsPerHost (Client_Transport (client (endpoints (New opts lo) ! i))) =
         (if MaxConns (opts ! i) = 0 then 5 else MaxConns (opts ! i))
     \<and> IdleConnTimeout (Client_Transport (client (endpoints (New opts lo) ! i))) =
         Client_Timeout (client (endpoints (New opts lo) ! i))
     \<and> ResponseHeaderTimeout (Client_Transport (client (endpoints (New opts lo) ! i))) =
         Client_Timeout (client (endpoints (New opts lo) ! i))
     \<and> Second = 1000000000"
  using assms by (simp add: endpoints_New New_endpoint_def Let_def Second_def)

theorem client_defaults_witness:
  "Client_Timeout (client (endpoints sample_manager ! 0)) = 5000000000
   \<and> MaxIdleConnsPerHost (Client_Transport (client (endpoints sample_manager ! 0))) = 5
   \<and> MaxConnsPerHost (Client_Transport (client (endpoints sample_manager ! 0))) = 5
   \<and> IdleConnTimeout (Client_Transport (client (endpoints sample_manager ! 0))) = 5000000000
   \<and> Client_Timeout (client (endpoints sample_manager ! 1)) = 30000000000
   \<and> MaxConnsPerHost (Client_Transport (client (endpoints sample_manager ! 1))) = 20"
proof -
  have h0: "(0::nat) < length [opt_signed, opt_plain]" by simp
  have h1: "(1::nat) < length [opt_signed, opt_plain]" by simp
  have o0: "Timeout ([opt_signed, opt_plain] ! 0) = 0" "MaxConns ([opt_signed, opt_plain] ! 0) = 0"
    by (simp_all add: opt_signed_def)
  have o1: "Timeout ([opt_signed, opt_plain] ! 1) = 30000000000"
    "MaxConns ([opt_signed, opt_plain] ! 1) = 20"
    by (simp_all add: opt_plain_def Second_def)
  note T0 = client_defaults [OF h0, of "[]", folded sample_manager_def, unfolded o0]
  note T1 = client_defaults [OF h1, of "[]", folded sample_manager_def, unfolded o1]
  from T0 have a: "Client_Timeout (client (endpoints sample_manager ! 0)) = 5000000000"
    "MaxIdleConnsPerHost (Client_Transport (client (endpoints sample_manager ! 0))) = 5"
    "MaxConnsPerHost (Client_Transport (client (endpoints sample_manager ! 0))) = 5"
    "IdleConnTimeout (Client_Transport (client (endpoints sample_manager ! 0))) = 5000000000"
    by (simp_all add: Second_def)
  from T1 have b: "Client_Timeout (client (endpoints sample_manager ! 1)) = 30000000000"
    "MaxConnsPerHost (Client_Transport (client (endpoints sample_manager ! 1))) = 20"
    by simp_all
  from a b show ?thesis by (intro conjI)
qed

text \<open>
  Claim C5. \<open>Close\<close> closes the stop channel without looking at its state, so the second
  call on a manager panics: here on the manager built from the empty configuration, as
  in the test \<open>TestClose\<close>, whose comment asks for a second call not to panic.
\<close>

theorem close_twice_panics:
  "(case Close (New [] []) of
      Inl p \<Rightarrow> False
    | Inr m \<Rightarrow> closeCh m \<and> Close m = Inl ''panic: close of closed channel'')"
  by (simp add: Close_def New_def)

text \<open>
  Claim C6. In every run of producers and worker, from every state, the jobs delivered
  so far followed by the jobs still in the channel are the jobs that were in the channel
  at the start followed by the jobs enqueued since, in the order of enqueueing. So, for
  every endpoint, the jobs delivered to it are an initial part of the jobs enqueued for
  it, in the same order. The requests on the network are those of the delivered jobs in
  that order, since the worker finishes \<open>send\<close> before it takes the next job. The loop of
  \<open>Dispatch\<close> is the run of its passes.
\<close>

theorem fifo_delivery:
  "delivered env as m @ ch (exec env as m) = ch m @ enqueued env as m
   \<and> prefix (filter (\<lambda>j. ep j = E) (delivered env as m))
            (filter (\<lambda>j. ep j = E) (ch m @ enqueued env as m))
   \<and> wire (exec env as m) =
       wire m @ concat (map (\<lambda>j. requests_of env (ep j) (payload j)) (delivered env as m))
   \<and> Dispatch_loop event b es m = exec env (map (Offer event b) es) m"
proof -
  have g: "delivered env as m @ ch (exec env as m) = ch m @ enqueued env as m"
    by (rule fifo_exec)
  have "filter (\<lambda>j. ep j = E) (ch m @ enqueued env as m) =
          filter (\<lambda>j. ep j = E) (delivered env as m) @ filter (\<lambda>j. ep j = E) (ch (exec env as m))"
    by (simp only: g [symmetric] filter_append)
  then have "prefix (filter (\<lambda>j. ep j = E) (delivered env as m))
                    (filter (\<lambda>j. ep j = E) (ch m @ enqueued env as m))"
    by (simp only: prefixI)
  with g show ?thesis
    using wire_exec [of env as m] Dispatch_loop_exec [of event b es m env] by (intro conjI)
qed

theorem fifo_delivery_witness:
  "map (\<lambda>j. (name (ep j), payload j))
     (delivered sample_env
        [Offer EventSubscriberCreated ''{a}'' (New_endpoint opt_signed),
         Offer EventSubscriberCreated ''{a}'' (New_endpoint opt_plain),
         Offer EventCampaignStarted ''{b}'' (New_endpoint opt_signed), Recv, Recv]
        sample_manager) = [(''crm'', ''{a}''), (''audit'', ''{a}'')]
   \<and> map (\<lambda>j. (name (ep j), payload j))
     (ch (exec sample_env
        [Offer EventSubscriberCreated ''{a}'' (New_endpoint opt_signed),
         Offer EventSubscriberCreated ''{a}'' (New_endpoint opt_plain),
         Offer EventCampaignStarted ''{b}'' (New_endpoint opt_signed), Recv, Recv]
        sample_manager)) = [(''crm'', ''{b}'')]
   \<and> map (\<lambda>r. (ReqURL r, Body r))
     (wire (exec sample_env
        [Offer EventSubscriberCreated ''{a}'' (New_endpoint opt_signed),
         Offer EventSubscriberCreated ''{a}'' (New_endpoint opt_plain),
         Offer EventCampaignStarted ''{b}'' (New_endpoint opt_signed), Recv, Recv]
        sample_manager)) =
       [(''https://crm.example/hook'', ''{a}''), (''http://audit.example/in'', ''{a}'')]"
proof -
  let ?as = "[Offer EventSubscriberCreated ''{a}'' (New_endpoint opt_signed),
         Offer EventSubscriberCreated ''{a}'' (New_endpoint opt_plain),
         Offer EventCampaignStarted ''{b}'' (New_endpoint opt_signed), Recv, Recv]"
  have d: "delivered sample_env ?as sample_manager =
             [\<lparr>ep = New_endpoint opt_signed, payload = ''{a}''\<rparr>,
              \<lparr>ep = New_endpoint opt_plain, payload = ''{a}''\<rparr>]"
    by (simp add: Dispatch_iter_def sample_subscriptions sample_manager_simps chan_cap_def
          ch_send running_send)
  have q: "enqueued sample_env ?as sample_manager =
             [\<lparr>ep = New_endpoint opt_signed, payload = ''{a}''\<rparr>,
              \<lparr>ep = New_endpoint opt_plain, payload = ''{a}''\<rparr>,
              \<lparr>ep = New_endpoint opt_signed, payload = ''{b}''\<rparr>]"
    by (simp add: Dispatch_iter_def sample_subscriptions sample_manager_simps chan_cap_def
          ch_send running_send)
  have n: "name (New_endpoint opt_signed) = ''crm''" "name (New_endpoint opt_plain) = ''audit''"
    "url (New_endpoint opt_signed) = ''https://crm.example/hook''"
    "url (New_endpoint opt_plain) = ''http://audit.example/in''"
    by (simp_all add: New_endpoint_def opt_signed_def opt_plain_def Let_def)
  have u: "url_error sample_env x = None" for x by (simp add: sample_env_def)
  note T = fifo_delivery [of sample_env ?as sample_manager, unfolded d q sample_manager_simps]
  from T have c: "ch (exec sample_env ?as sample_manager) =
                    [\<lparr>ep = New_endpoint opt_signed, payload = ''{b}''\<rparr>]"
    by simp
  from T have w: "wire (exec sample_env ?as sample_manager) =
      [] @ concat (map (\<lambda>j. requests_of sample_env (ep j) (payload j))
             [\<lparr>ep = New_endpoint opt_signed, payload = ''{a}''\<rparr>,
              \<lparr>ep = New_endpoint opt_plain, payload = ''{a}''\<rparr>])"
    by blast
  show ?thesis
    unfolding d c w by (simp add: n u requests_of_eq)
qed

lemma AllEvents_eq:
  "AllEvents =
     [''subscriber.created'', ''subscriber.updated'', ''subscriber.unsubscribed'',
      ''subscriber.confirmed'', ''subscriber.blocklisted'', ''subscriber.deleted'',
      ''campaign.started'', ''campaign.finished'',
      ''tracking.link_click'', ''tracking.email_open'', ''tracking.bounce'']"
  by (simp add: AllEvents_def Event_defs)

lemma distinct_AllEvents: "distinct AllEvents"
  by (simp add: AllEvents_eq)

text \<open>
  Claim C9 as stated fails: \<open>custom.event\<close> is none of the eleven kinds, one endpoint of
  the sample configuration lists it, and an emit of it enqueues a job for that endpoint.
\<close>

theorem unlisted_event_dispatched:
  "''custom.event'' \<notin> set AllEvents
   \<and> ch sample_manager = []
   \<and> ch (Dispatch sample_env 0 sample_manager ''custom.event'' ()) =
       [\<lparr>ep = New_endpoint opt_plain, payload = ''{event:custom.event}''\<rparr>]"
proof -
  have h: "endpoints sample_manager \<noteq> []" by (simp add: sample_manager_simps)
  have ok: "json_Marshal sample_env \<lparr>Event = ''custom.event'', Timestamp = 0, Data = ()\<rparr>
              = Inr ''{event:custom.event}''"
    by (simp add: sample_env_def)
  have "ch (Dispatch sample_env 0 sample_manager ''custom.event'' ()) =
       [\<lparr>ep = New_endpoint opt_plain, payload = ''{event:custom.event}''\<rparr>]"
    by (simp add: Dispatch_ok [OF h ok] Dispatch_loop_eq sample_manager_simps
          sample_subscriptions chan_cap_def)
  then show ?thesis by (simp add: AllEvents_eq sample_manager_simps)
qed

text \<open>
  Claim C9, as amended. \<open>AllEvents\<close> lists exactly the eleven event kinds, each once.
  \<open>Dispatch\<close> does not compare the event kind with this list; it creates jobs for the
  endpoints whose subscription map holds the kind. So a kind for which \<open>Dispatch\<close> creates
  a job is one of the eleven provided every endpoint is subscribed to kinds of the list
  only, and on a manager built from records whose event lists are drawn from \<open>AllEvents\<close>
  an emit of any other kind enqueues nothing.
\<close>

theorem closed_event_set:
  "AllEvents =
     [''subscriber.created'', ''subscriber.updated'', ''subscriber.unsubscribed'',
      ''subscriber.confirmed'', ''subscriber.blocklisted'', ''subscriber.deleted'',
      ''campaign.started'', ''campaign.finished'',
      ''tracking.link_click'', ''tracking.email_open'', ''tracking.bounce'']
   \<and> distinct AllEvents \<and> length AllEvents = 11
   \<and> ((\<forall>e \<in> set (endpoints m). \<forall>k. map_index (events e) k \<longrightarrow> k \<in> set AllEvents)
        \<and> ch (Dispatch env now m event dat) \<noteq> ch m \<longrightarrow> event \<in> set AllEvents)
   \<and> ((\<forall>opt \<in> set opts. set (Events opt) \<subseteq> set AllEvents) \<and> event \<notin> set AllEvents \<longrightarrow>
        ch (Dispatch env now (New opts lo) event dat) = [])"
proof -
  have a: "event \<in> set AllEvents"
    if sub: "\<forall>e \<in> set (endpoints m). \<forall>k. map_index (events e) k \<longrightarrow> k \<in> set AllEvents"
      and new: "ch (Dispatch env now m event dat) \<noteq> ch m"
  proof -
    obtain js where js: "ch (Dispatch env now m event dat) = ch m @ js"
      and ok: "\<forall>j \<in> set js. ep j \<in> set (endpoints m) \<and> map_index (events (ep j)) event"
      using new_jobs_Dispatch [of env now m event dat] by blast
    from new js have "js \<noteq> []" by auto
    then obtain j where "j \<in> set js" by (cases js) auto
    with ok have "ep j \<in> set (endpoints m)" "map_index (events (ep j)) event" by auto
    with sub show ?thesis by blast
  qed
  have b: "ch (Dispatch env now (New opts lo) event dat) = []"
    if sub: "\<forall>opt \<in> set opts. set (Events opt) \<subseteq> set AllEvents"
      and out: "event \<notin> set AllEvents"
  proof (rule ccontr)
    assume "ch (Dispatch env now (New opts lo) event dat) \<noteq> []"
    then have new: "ch (Dispatch env now (New opts lo) event dat) \<noteq> ch (New opts lo)"
      by (simp add: ch_New)
    obtain js where js: "ch (Dispatch env now (New opts lo) event dat) = ch (New opts lo) @ js"
      and ok: "\<forall>j \<in> set js. ep j \<in> set (endpoints (New opts lo)) \<and> map_index (events (ep j)) event"
      using new_jobs_Dispatch [of env now "New opts lo" event dat] by blast
    from new js have "js \<noteq> []" by auto
    then obtain j where "j \<in> set js" by (cases js) auto
    with ok have "ep j \<in> set (endpoints (New opts lo))" "map_index (events (ep j)) event" by auto
    then obtain opt where "opt \<in> set opts" "event \<in> set (Events opt)"
      by (auto simp: endpoints_New subscribed_New_endpoint)
    with sub out show False by auto
  qed
  show ?thesis
    using a b distinct_AllEvents by (simp add: AllEvents_eq)
qed

theorem closed_event_set_witness:
  "ch (Dispatch sample_env 0 (New [opt_signed] []) EventSubscriberCreated ()) =
     [\<lparr>ep = New_endpoint opt_signed, payload = ''{event:subscriber.created}''\<rparr>]
   \<and> EventSubscriberCreated \<in> set AllEvents
   \<and> ''custom.event'' \<notin> set AllEvents
   \<and> ch (Dispatch sample_env 0 (New [opt_signed] []) ''custom.event'' ()) = []"
proof -
  let ?m = "New [opt_signed] []"
  have m: "endpoints ?m = [New_endpoint opt_signed]" "ch ?m = []"
    by (simp_all add: endpoints_New ch_New)
  have h: "endpoints ?m \<noteq> []" by (simp add: m)
  have ok: "json_Marshal sample_env \<lparr>Event = EventSubscriberCreated, Timestamp = 0, Data = ()\<rparr>
              = Inr ''{event:subscriber.created}''"
    by (simp add: sample_env_def EventSubscriberCreated_def)
  have c: "ch (Dispatch sample_env 0 ?m EventSubscriberCreated ()) =
     [\<lparr>ep = New_endpoint opt_signed, payload = ''{event:subscriber.created}''\<rparr>]"
    by (simp add: Dispatch_ok [OF h ok] Dispatch_loop_eq m sample_subscriptions chan_cap_def)
  have ev: "set (Events opt_signed) \<subseteq> set AllEvents"
    by (simp add: opt_signed_def AllEvents_def)
  have s: "\<forall>e \<in> set (endpoints ?m). \<forall>k. map_index (events e) k \<longrightarrow> k \<in> set AllEvents"
    using ev by (auto simp: m subscribed_New_endpoint)
  have s': "\<forall>opt \<in> set [opt_signed]. set (Events opt) \<subseteq> set AllEvents"
    using ev by simp
  have n: "ch (Dispatch sample_env 0 ?m EventSubscriberCreated ()) \<noteq> ch ?m"
    by (simp add: c m)
  have out: "''custom.event'' \<notin> set AllEvents" by (simp add: AllEvents_eq)
  from closed_event_set [of ?m sample_env 0 EventSubscriberCreated "()" "[opt_signed]" "[]"] s n
  have i: "EventSubscriberCreated \<in> set AllEvents" by blast
  from closed_event_set [of ?m sample_env 0 "''custom.event''" "()" "[opt_signed]" "[]"] s' out
  have e: "ch (Dispatch sample_env 0 ?m ''custom.event'' ()) = []" by blast
  from c i out e show ?thesis by (intro conjI)
qed

lemma exec_offers:
  assumes "map_index (events e) event"
  shows "length (ch m) + n \<le> chan_cap \<Longrightarrow>
         exec env (replicate n (Offer event b e)) m =
           m\<lparr>ch := ch m @ replicate n \<lparr>ep = e, payload = b\<rparr>\<rparr>"
proof (induction n arbitrary: m)
  case 0
  show ?case by simp
next
  case (Suc n)
  from Suc.prems have "length (ch m) < chan_cap" by simp
  with assms have s: "Dispatch_iter event b e m = m\<lparr>ch := ch m @ [\<lparr>ep = e, payload = b\<rparr>]\<rparr>"
    by (simp add: Dispatch_iter_def)
  from Suc.prems have "length (ch (Dispatch_iter event b e m)) + n \<le> chan_cap"
    by (simp add: s)
  then show ?case
    by (simp add: Suc.IH s replicate_append_same)
qed

text \<open>
  Claim C10 as stated fails: the first sample record names \<open>subscriber.created\<close> twice;
  after 1000 jobs have been offered and none has been taken the channel is full, and an
  emit of \<open>subscriber.created\<close> then enqueues no job at all, for this endpoint or another.
\<close>

theorem duplicate_event_dropped_when_full:
  "Events opt_signed = [EventSubscriberCreated, EventCampaignStarted, EventSubscriberCreated]
   \<and> endpoints full_manager = [New_endpoint opt_signed, New_endpoint opt_plain]
   \<and> exec sample_env
        (replicate 1000
           (Offer EventSubscriberCreated ''{event:subscriber.created}'' (New_endpoint opt_plain)))
        sample_manager = full_manager
   \<and> length (ch full_manager) = 1000
   \<and> json_Marshal sample_env \<lparr>Event = EventSubscriberCreated, Timestamp = 0, Data = ()\<rparr>
        = Inr ''{event:subscriber.created}''
   \<and> ch (Dispatch sample_env 0 full_manager EventSubscriberCreated ()) = ch full_manager"
proof -
  have e: "endpoints full_manager = [New_endpoint opt_signed, New_endpoint opt_plain]"
    by (simp add: full_manager_def sample_manager_simps)
  have h: "endpoints full_manager \<noteq> []" by (simp add: e)
  have ok: "json_Marshal sample_env \<lparr>Event = EventSubscriberCreated, Timestamp = 0, Data = ()\<rparr>
              = Inr ''{event:subscriber.created}''"
    by (simp add: sample_env_def EventSubscriberCreated_def)
  have l: "length (ch full_manager) = 1000" by (simp add: full_manager_def)
  have "length (ch sample_manager) + 1000 \<le> chan_cap"
    by (simp add: sample_manager_simps chan_cap_def)
  then have r: "exec sample_env
        (replicate 1000
           (Offer EventSubscriberCreated ''{event:subscriber.created}'' (New_endpoint opt_plain)))
        sample_manager = full_manager"
    by (simp add: exec_offers [OF sample_subscriptions(3)] full_manager_def sample_job_def
          sample_manager_simps)
  have c: "ch (Dispatch sample_env 0 full_manager EventSubscriberCreated ()) = ch full_manager"
    by (simp add: Dispatch_ok [OF h ok] Dispatch_loop_eq l chan_cap_def)
  have o: "Events opt_signed = [EventSubscriberCreated, EventCampaignStarted, EventSubscriberCreated]"
    by (simp add: opt_signed_def)
  from o e r l ok c show ?thesis by (intro conjI)
qed

lemma New_endpoint_remdups:
  "New_endpoint (opt\<lparr>Events := remdups (Events opt)\<rparr>) = New_endpoint opt"
  by (simp add: New_endpoint_def New_events_eq)

text \<open>
  Claim C10, as amended. The endpoint built from a record is the same as the one built
  from the record with the duplicates removed from its event list. For a manager whose
  endpoints were built from the records \<open>opts\<close>, the jobs an emit adds to the channel are
  an initial part of the list that has one job per record whose event list names the
  kind, however often it names it: all of that list while the channel has room, and
  none of it when serialization fails.
\<close>

theorem one_job_per_record:
  assumes "endpoints m = map New_endpoint opts"
  shows "New_endpoint (opt\<lparr>Events := remdups (Events opt)\<rparr>) = New_endpoint opt
     \<and> (\<forall>b. json_Marshal env \<lparr>Event = event, Timestamp = now, Data = dat\<rparr> = Inr b \<longrightarrow>
          ch (Dispatch env now m event dat) =
            ch m @ take (chan_cap - length (ch m))
                     (map (\<lambda>opt. \<lparr>ep = New_endpoint opt, payload = b\<rparr>)
                        (filter (\<lambda>opt. event \<in> set (Events opt)) opts)))
     \<and> (\<forall>err. json_Marshal env \<lparr>Event = event, Timestamp = now, Data = dat\<rparr> = Inl err \<longrightarrow>
          ch (Dispatch env now m event dat) = ch m)"
proof -
  have f: "filter (\<lambda>e. map_index (events e) event) (map New_endpoint opts) =
             map New_endpoint (filter (\<lambda>opt. event \<in> set (Events opt)) opts)"
    by (simp add: filter_map comp_def subscribed_New_endpoint)
  have ok: "ch (Dispatch env now m event dat) =
            ch m @ take (chan_cap - length (ch m))
                     (map (\<lambda>opt. \<lparr>ep = New_endpoint opt, payload = b\<rparr>)
                        (filter (\<lambda>opt. event \<in> set (Events opt)) opts))"
    if b: "json_Marshal env \<lparr>Event = event, Timestamp = now, Data = dat\<rparr> = Inr b" for b
  proof (cases "opts = []")
    case True
    with assms show ?thesis by (simp add: Dispatch_empty)
  next
    case False
    with assms have "endpoints m \<noteq> []" by simp
    then show ?thesis
      by (simp add: Dispatch_ok [OF _ b] Dispatch_loop_eq assms f take_map comp_def)
  qed
  have err: "ch (Dispatch env now m event dat) = ch m"
    if "json_Marshal env \<lparr>Event = event, Timestamp = now, Data = dat\<rparr> = Inl err" for err
    using ch_Dispatch [of m event env now dat] that by blast
  from ok err show ?thesis
    using New_endpoint_remdups [of opt] by blast
qed

theorem one_job_per_record_witness:
  "Events opt_signed = [EventSubscriberCreated, EventCampaignStarted, EventSubscriberCreated]
   \<and> ch (Dispatch sample_env 0 (New [opt_signed] []) EventSubscriberCreated ()) =
       [\<lparr>ep = New_endpoint opt_signed, payload = ''{event:subscriber.created}''\<rparr>]
   \<and> ch (Dispatch failing_env 0 (New [opt_signed] []) EventSubscriberCreated ()) = []"
proof -
  let ?m = "New [opt_signed] []"
  have m: "endpoints ?m = map New_endpoint [opt_signed]" by (simp add: endpoints_New)
  have ok: "json_Marshal sample_env \<lparr>Event = EventSubscriberCreated, Timestamp = 0, Data = ()\<rparr>
              = Inr ''{event:subscriber.created}''"
    by (simp add: sample_env_def EventSubscriberCreated_def)
  have err: "json_Marshal failing_env \<lparr>Event = EventSubscriberCreated, Timestamp = 0, Data = ()\<rparr>
              = Inl ''json: unsupported type: chan int''"
    by (simp add: failing_env_def)
  have o: "Events opt_signed = [EventSubscriberCreated, EventCampaignStarted, EventSubscriberCreated]"
    by (simp add: opt_signed_def)
  from one_job_per_record [OF m, of opt_signed sample_env EventSubscriberCreated 0 "()"] ok
  have "ch (Dispatch sample_env 0 ?m EventSubscriberCreated ()) =
            ch ?m @ take (chan_cap - length (ch ?m))
                     (map (\<lambda>opt. \<lparr>ep = New_endpoint opt, payload = ''{event:subscriber.created}''\<rparr>)
                        (filter (\<lambda>opt. EventSubscriberCreated \<in> set (Events opt)) [opt_signed]))"
    by blast
  then have a: "ch (Dispatch sample_env 0 ?m EventSubscriberCreated ()) =
       [\<lparr>ep = New_endpoint opt_signed, payload = ''{event:subscriber.created}''\<rparr>]"
    by (simp add: ch_New chan_cap_def o)
  from one_job_per_record [OF m, of opt_signed failing_env EventSubscriberCreated 0 "()"] err
  have "ch (Dispatch failing_env 0 ?m EventSubscriberCreated ()) = ch ?m"
    by blast
  then have b: "ch (Dispatch failing_env 0 ?m EventSubscriberCreated ()) = []"
    by (simp add: ch_New)
  from o a b show ?thesis by (intro conjI)
qed

end
